theory Spec2Isabelle
  imports Main "HOL-Library.Multiset"
begin

section \<open>The guest registry of hotelmgmt.PY\<close>

text \<open>
  The program is a command-line front end to one MySQL table. Its six functions
  (\<open>setup_database\<close>, \<open>check_in_customer\<close>, \<open>view_all_customers\<close>,
  \<open>find_customer\<close>, \<open>check_out_customer\<close>, \<open>main\<close>) read lines with
  \<open>input\<close>, send SQL statements through a connection and report with \<open>print\<close>.
  The embedding threads one state, the \<open>world\<close>, through them: the store behind the
  connection, the lines still to be read from standard input, and what has been printed.
\<close>

subsection \<open>Strings\<close>

text \<open>
  A Python \<open>str\<close> is a sequence of Unicode code points, and the model has it so: a
  character is its code point. \<open>ascii\<close> writes a string of the model from its
  letters.
\<close>

type_synonym str = "nat list"

definition ascii :: "string \<Rightarrow> str" where
  "ascii s = map of_char s"

subsection \<open>Rows and the table\<close>

text \<open>
  The columns of \<open>CREATE TABLE customers\<close> (lines 42-49). Each field is the column's
  name with \<open>_col\<close> added, which leaves the plain names to the program's variables.
  The timestamp is a number of seconds; its rendering by \<open>strftime\<close> is not
  modelled.
\<close>

record customer =
  id_col :: int
  name_col :: str
  contact_col :: str
  address_col :: str
  room_number_col :: int
  check_in_date_col :: nat

text \<open>The table: its rows in insertion order and the \<open>AUTO_INCREMENT\<close> counter.\<close>

record table =
  rows :: "customer list"
  auto_increment :: int

subsection \<open>Statements, errors, output\<close>

type_synonym errno = int

text \<open>The seven SQL statements of the source, with the values bound to their parameters.\<close>

datatype stmt =
    CREATE_DATABASE
  | CREATE_TABLE
  | INSERT str str str int
  | SELECT_ALL
  | SELECT_ROOM int
  | SELECT_NAME int
  | DELETE int

definition ER_DB_CREATE_EXISTS :: errno where
  "ER_DB_CREATE_EXISTS = 1007"

definition ER_BAD_DB_ERROR :: errno where
  "ER_BAD_DB_ERROR = 1049"

definition ER_DUP_ENTRY :: errno where
  "ER_DUP_ENTRY = 1062"

definition ER_NO_SUCH_TABLE :: errno where
  "ER_NO_SUCH_TABLE = 1146"

text \<open>
  The connector raises \<open>OperationalError("MySQL Connection not available.")\<close> when a
  cursor is asked of a connection that is not open; that error carries the number -1.
\<close>

definition CONNECTION_NOT_AVAILABLE :: errno where
  "CONNECTION_NOT_AVAILABLE = - 1"

text \<open>
  One constructor for each \<open>print\<close> call and each prompt of \<open>input\<close>, carrying
  the values the source interpolates into the text.
\<close>

datatype message =
    EnsuringTable                        \<comment> \<open>Ensuring 'customers' table exists...\<close>
  | DatabaseReady                        \<comment> \<open>Database and table are ready.\<close>
  | DatabaseSetupError errno             \<comment> \<open>Database setup error: err\<close>
  | CheckInBanner                        \<comment> \<open>--- New Customer Check-In ---\<close>
  | PromptName                           \<comment> \<open>Enter customer's full name:\<close>
  | PromptContact                        \<comment> \<open>Enter contact number:\<close>
  | PromptAddress                        \<comment> \<open>Enter address:\<close>
  | PromptRoom                           \<comment> \<open>Enter allocated room number:\<close>
  | AllFieldsRequired                    \<comment> \<open>Error: All fields are required.\<close>
  | CheckInSuccess str int               \<comment> \<open>Success! Customer 'name' checked into room n.\<close>
  | RoomMustBeInteger                    \<comment> \<open>Invalid input. Room number must be an integer.\<close>
  | RoomInUse int                        \<comment> \<open>Error: Room number 'n' is already in use.\<close>
  | AnErrorOccurred errno                \<comment> \<open>An error occurred: err\<close>
  | ViewBanner                           \<comment> \<open>--- All Checked-In Customers ---\<close>
  | NoCustomers                          \<comment> \<open>No customers are currently checked in.\<close>
  | TableHeader                          \<comment> \<open>ID | Name | Contact | Room No. | Check-In Date\<close>
  | Dashes nat                           \<comment> \<open>"-" * n\<close>
  | CustomerRow int str str int nat
  | FetchError errno                     \<comment> \<open>An error occurred while fetching data: err\<close>
  | FindBanner                           \<comment> \<open>--- Find a Customer ---\<close>
  | PromptFindRoom                       \<comment> \<open>Enter the room number to find:\<close>
  | CustomerFound                        \<comment> \<open>Customer Found:\<close>
  | ShowID int
  | ShowName str
  | ShowContact str
  | ShowAddress str
  | ShowRoomNumber int
  | ShowCheckInDate nat
  | NoCustomerFound int                  \<comment> \<open>No customer found in room number n.\<close>
  | InvalidRoomNumber                    \<comment> \<open>Invalid input. Please enter a valid room number.\<close>
  | CheckOutBanner                       \<comment> \<open>--- Customer Check-Out ---\<close>
  | PromptCheckOutRoom                   \<comment> \<open>Enter room number for check-out:\<close>
  | RoomNotOccupied int                  \<comment> \<open>Error: Room n is not occupied.\<close>
  | PromptConfirm str int                \<comment> \<open>Check out customer 'name' from room n? (y/n):\<close>
  | CheckOutSuccess int                  \<comment> \<open>Success! Customer from room n has been checked out.\<close>
  | CouldNotProcess                      \<comment> \<open>Could not process check-out.\<close>
  | CheckOutCancelled                    \<comment> \<open>Check-out cancelled.\<close>
  | ExitingDatabaseFailure               \<comment> \<open>Exiting due to database connection failure.\<close>
  | MenuRule                             \<comment> \<open>===================================\<close>
  | MenuTitle                            \<comment> \<open>Hotel Management System Menu\<close>
  | MenuItem nat                         \<comment> \<open>the five numbered menu lines\<close>
  | MenuDashes                           \<comment> \<open>-----------------------------------\<close>
  | PromptChoice                         \<comment> \<open>Enter your choice (1-5):\<close>
  | Goodbye                              \<comment> \<open>Exiting the system. Goodbye!\<close>
  | InvalidChoice                        \<comment> \<open>Invalid choice. Please select a valid option.\<close>
  | ConnectionClosed                     \<comment> \<open>MySQL connection is closed.\<close>

subsection \<open>The world\<close>

text \<open>
  A connection is the number the server gave it. The store side of the world is the
  MySQL server as the program can observe it: whether the database \<open>hotel_db\<close>
  exists, the table \<open>customers\<close> when it has been created, the server's clock, the
  open connections, and the statements received so far. \<open>connect_fault\<close> and
  \<open>fault\<close> stand for every error the server can raise that the fields here do not
  determine (no route to the host, access denied, a lost connection, a text longer than
  its column or a room number outside \<open>INT\<close>, which a server in strict mode refuses):
  when set, the call raises \<open>mysql.connector.Error\<close> with that number and does
  nothing else. \<open>fault\<close> depends on the statement and its values, so a property that
  assumes no fault for a statement is about values the server stores as they are.
\<close>

type_synonym conn = nat

record world =
  db_exists :: bool
  customers :: "table option"
  now :: nat
  connections :: "conn list"
  next_conn :: conn
  connect_fault :: "errno option"
  fault :: "stmt \<Rightarrow> errno option"
  statements :: "stmt list"
  stdin :: "str list"
  stdout :: "message list"

text \<open>
  The only exception that escapes the handlers of the source is the \<open>EOFError\<close> of
  \<open>input\<close> at the end of standard input. A call either returns a value or raises,
  in both cases in some world.
\<close>

datatype exn = EOFError

datatype 'a result = Returned 'a world | Raised exn world

definition print :: "message \<Rightarrow> world \<Rightarrow> world" where
  "print m w = w\<lparr>stdout := stdout w @ [m]\<rparr>"

text \<open>\<open>input(prompt)\<close> writes the prompt, then reads one line; \<open>None\<close> is end of input.\<close>

definition input :: "message \<Rightarrow> world \<Rightarrow> str option \<times> world" where
  "input prompt w =
     (case stdin w of
        [] \<Rightarrow> (None, print prompt w)
      | l # ls \<Rightarrow> (Some l, (print prompt w)\<lparr>stdin := ls\<rparr>))"

subsection \<open>Python's \<open>int\<close> and \<open>lower\<close> on strings\<close>

text \<open>
  \<open>int(s)\<close> in base ten, as CPython 3.11 computes it on a \<open>str\<close>.

  First every character is brought to ASCII: a code point below 127 stays, white space
  above it becomes a blank, a decimal digit of any script becomes the ASCII digit of its
  value, and any other character becomes a question mark, on which the number fails.
  The white space above 127 and the decimal digits are those of the Unicode database
  of that interpreter, version 14.0: \<open>decimal_zeros\<close> lists the code point of the
  digit zero of each of the 66 runs of ten digits.
\<close>

definition is_unicode_space :: "nat \<Rightarrow> bool" where
  "is_unicode_space n =
     (n = 133 \<or> n = 160 \<or> n = 5760 \<or> (8192 \<le> n \<and> n \<le> 8202) \<or> n = 8232 \<or> n = 8233 \<or>
      n = 8239 \<or> n = 8287 \<or> n = 12288)"

definition decimal_zeros :: "nat list" where
  "decimal_zeros =
     [48, 1632, 1776, 1984, 2406, 2534, 2662, 2790, 2918, 3046, 3174, 3302, 3430, 3558,
      3664, 3792, 3872, 4160, 4240, 6112, 6160, 6470, 6608, 6784, 6800, 6992, 7088, 7232,
      7248, 42528, 43216, 43264, 43472, 43504, 43600, 44016, 65296, 66720, 68912, 69734,
      69872, 69942, 70096, 70384, 70736, 70864, 71248, 71360, 71472, 71904, 72016, 72784,
      73040, 73120, 92768, 92864, 93008, 120782, 120792, 120802, 120812, 120822, 123200,
      123632, 125264, 130032]"

definition decimal :: "nat \<Rightarrow> nat option" where
  "decimal n =
     (case find (\<lambda>z. z \<le> n \<and> n < z + 10) decimal_zeros of
        None \<Rightarrow> None
      | Some z \<Rightarrow> Some (n - z))"

definition to_ascii :: "nat \<Rightarrow> nat" where
  "to_ascii n =
     (if n < 127 then n
      else if is_unicode_space n then 32
      else case decimal n of Some d \<Rightarrow> 48 + d | None \<Rightarrow> 63)"

text \<open>
  Then the ASCII text is read: the white space of C around the number is dropped (code
  points 9 to 13 and 32; not 28 to 31), one sign may lead, and single underscores may
  separate digits. A number of more than 4300 digits is refused (the default of
  \<open>sys.set_int_max_str_digits\<close>). Anything else is \<open>ValueError\<close>, here
  \<open>None\<close>.
\<close>

definition is_space :: "nat \<Rightarrow> bool" where
  "is_space n = ((9 \<le> n \<and> n \<le> 13) \<or> n = 32)"

definition is_digit :: "nat \<Rightarrow> bool" where
  "is_digit n = (48 \<le> n \<and> n \<le> 57)"

definition digit_val :: "nat \<Rightarrow> int" where
  "digit_val n = int n - 48"

definition strip :: "str \<Rightarrow> str" where
  "strip s = rev (dropWhile is_space (rev (dropWhile is_space s)))"

definition MAX_STR_DIGITS :: nat where
  "MAX_STR_DIGITS = 4300"

fun parse_digits :: "str \<Rightarrow> int \<Rightarrow> bool \<Rightarrow> int option" where
  "parse_digits [] acc prev = (if prev then Some acc else None)"
| "parse_digits (c # cs) acc prev =
     (if is_digit c then parse_digits cs (10 * acc + digit_val c) True
      else if c = of_char (CHR ''_'') \<and> prev \<and> cs \<noteq> [] then parse_digits cs acc False
      else None)"

definition py_int :: "str \<Rightarrow> int option" where
  "py_int s =
     (case strip (map to_ascii s) of
        [] \<Rightarrow> None
      | c # cs \<Rightarrow>
          (let signed = (c = of_char (CHR ''-'') \<or> c = of_char (CHR ''+''));
               body = (if signed then cs else c # cs)
           in if length (filter is_digit body) > MAX_STR_DIGITS then None
              else if c = of_char (CHR ''-'') then map_option uminus (parse_digits body 0 False)
              else parse_digits body 0 False))"

text \<open>
  \<open>str.lower\<close>, on the letters of ASCII. The program only compares the result with
  \<open>'y'\<close>, and \<open>Y\<close> is the one other character whose lower case is \<open>y\<close>, so
  the comparison comes out as in Python on every line.
\<close>

definition lower_char :: "nat \<Rightarrow> nat" where
  "lower_char n = (if 65 \<le> n \<and> n \<le> 90 then n + 32 else n)"

definition lower :: "str \<Rightarrow> str" where
  "lower s = map lower_char s"

subsection \<open>The connector\<close>

definition is_connected :: "conn \<Rightarrow> world \<Rightarrow> bool" where
  "is_connected c w = (c \<in> set (connections w))"

text \<open>
  \<open>mysql.connector.connect\<close>: with \<open>database=DB_NAME\<close> (\<open>use_db\<close>) the database
  must exist.
\<close>

definition connect :: "bool \<Rightarrow> world \<Rightarrow> (errno + conn) \<times> world" where
  "connect use_db w =
     (case connect_fault w of
        Some e \<Rightarrow> (Inl e, w)
      | None \<Rightarrow>
          if use_db \<and> \<not> db_exists w then (Inl ER_BAD_DB_ERROR, w)
          else (Inr (next_conn w),
                w\<lparr>connections := connections w @ [next_conn w],
                  next_conn := Suc (next_conn w)\<rparr>))"

definition close :: "conn \<Rightarrow> world \<Rightarrow> world" where
  "close c w = w\<lparr>connections := removeAll c (connections w)\<rparr>"

definition occupied :: "table \<Rightarrow> int \<Rightarrow> bool" where
  "occupied t r = (\<exists>c \<in> set (rows t). room_number_col c = r)"

text \<open>
  What the server does with a statement that it accepts. The answer is the rows fetched
  and the cursor's \<open>rowcount\<close>.
  \<^item> \<open>CREATE DATABASE\<close> fails with \<open>ER_DB_CREATE_EXISTS\<close> on an existing database.
  \<^item> \<open>CREATE TABLE IF NOT EXISTS\<close> creates the empty table only when there is none.
  \<^item> \<open>INSERT\<close> fails with \<open>ER_DUP_ENTRY\<close> when the room number is in the table
    (\<open>room_number INT NOT NULL UNIQUE\<close>); otherwise the new row takes the counter as
    its \<open>id\<close> and the clock as its \<open>check_in_date\<close>.
  \<^item> \<open>SELECT ... ORDER BY room_number\<close> sorts the rows by room number.
  \<^item> \<open>DELETE\<close> removes the rows of the room and counts them.
  \<open>conn.commit()\<close> follows each change at once in the source: the change is applied
  with its statement.
\<close>

definition run :: "stmt \<Rightarrow> world \<Rightarrow> (errno + customer list \<times> nat) \<times> world" where
  "run q w =
     (case q of
        CREATE_DATABASE \<Rightarrow>
          if db_exists w then (Inl ER_DB_CREATE_EXISTS, w)
          else (Inr ([], 1), w\<lparr>db_exists := True\<rparr>)
      | CREATE_TABLE \<Rightarrow>
          (case customers w of
             None \<Rightarrow> (Inr ([], 0), w\<lparr>customers := Some \<lparr>rows = [], auto_increment = 1\<rparr>\<rparr>)
           | Some t \<Rightarrow> (Inr ([], 0), w))
      | INSERT n c a r \<Rightarrow>
          (case customers w of
             None \<Rightarrow> (Inl ER_NO_SUCH_TABLE, w)
           | Some t \<Rightarrow>
               if occupied t r then (Inl ER_DUP_ENTRY, w)
               else (Inr ([], 1),
                     w\<lparr>customers := Some
                         (t\<lparr>rows := rows t @
                              [\<lparr>id_col = auto_increment t, name_col = n, contact_col = c,
                                address_col = a, room_number_col = r,
                                check_in_date_col = now w\<rparr>],
                            auto_increment := auto_increment t + 1\<rparr>)\<rparr>))
      | SELECT_ALL \<Rightarrow>
          (case customers w of
             None \<Rightarrow> (Inl ER_NO_SUCH_TABLE, w)
           | Some t \<Rightarrow> (Inr (sort_key room_number_col (rows t), length (rows t)), w))
      | SELECT_ROOM r \<Rightarrow>
          (case customers w of
             None \<Rightarrow> (Inl ER_NO_SUCH_TABLE, w)
           | Some t \<Rightarrow>
               (Inr (filter (\<lambda>c. room_number_col c = r) (rows t),
                     length (filter (\<lambda>c. room_number_col c = r) (rows t))), w))
      | SELECT_NAME r \<Rightarrow>
          (case customers w of
             None \<Rightarrow> (Inl ER_NO_SUCH_TABLE, w)
           | Some t \<Rightarrow>
               (Inr (filter (\<lambda>c. room_number_col c = r) (rows t),
                     length (filter (\<lambda>c. room_number_col c = r) (rows t))), w))
      | DELETE r \<Rightarrow>
          (case customers w of
             None \<Rightarrow> (Inl ER_NO_SUCH_TABLE, w)
           | Some t \<Rightarrow>
               (Inr ([], length (filter (\<lambda>c. room_number_col c = r) (rows t))),
                w\<lparr>customers := Some (t\<lparr>rows := filter (\<lambda>c. room_number_col c \<noteq> r) (rows t)\<rparr>)\<rparr>)))"

text \<open>
  \<open>conn.cursor()\<close> followed by \<open>cursor.execute(q)\<close>: no cursor on a connection that
  is not open; otherwise the server receives the statement and either raises its fault or
  runs it.
\<close>

definition execute :: "conn \<Rightarrow> stmt \<Rightarrow> world \<Rightarrow> (errno + customer list \<times> nat) \<times> world" where
  "execute c q w =
     (if \<not> is_connected c w then (Inl CONNECTION_NOT_AVAILABLE, w)
      else
        (let w1 = w\<lparr>statements := statements w @ [q]\<rparr> in
         case fault w q of
           Some e \<Rightarrow> (Inl e, w1)
         | None \<Rightarrow> run q w1))"

text \<open>\<open>cursor.fetchone()\<close>: the first row of the answer, if any.\<close>

definition fetchone :: "customer list \<Rightarrow> customer option" where
  "fetchone rs = (case rs of [] \<Rightarrow> None | r # _ \<Rightarrow> Some r)"

subsection \<open>\<open>setup_database\<close> (lines 11-57)\<close>

text \<open>
  The result is the connection, or \<open>None\<close> after the handler of line 55 has printed
  the error. An error of \<open>CREATE DATABASE\<close> other than \<open>ER_DB_CREATE_EXISTS\<close>
  is raised again (line 30) and reaches that handler; \<open>server_conn\<close> then stays open.
\<close>

definition setup_database :: "world \<Rightarrow> conn option result" where
  "setup_database w0 =
     (case connect False w0 of
        (Inl err, w) \<Rightarrow> Returned None (print (DatabaseSetupError err) w)
      | (Inr server_conn, w) \<Rightarrow>
          (let (raised, w) =
                 (case execute server_conn CREATE_DATABASE w of
                    (Inl err, w) \<Rightarrow> (if err = ER_DB_CREATE_EXISTS then None else Some err, w)
                  | (Inr _, w) \<Rightarrow> (None, w))
           in case raised of
                Some err \<Rightarrow> Returned None (print (DatabaseSetupError err) w)
              | None \<Rightarrow>
                  (case connect True (close server_conn w) of
                     (Inl err, w) \<Rightarrow> Returned None (print (DatabaseSetupError err) w)
                   | (Inr db_conn, w) \<Rightarrow>
                       (case execute db_conn CREATE_TABLE (print EnsuringTable w) of
                          (Inl err, w) \<Rightarrow> Returned None (print (DatabaseSetupError err) w)
                        | (Inr _, w) \<Rightarrow> Returned (Some db_conn) (print DatabaseReady w)))))"

subsection \<open>\<open>check_in_customer\<close> (lines 61-87)\<close>

text \<open>
  The four lines are read first; \<open>int\<close> is applied to the fourth as it is read.
  \<open>all([name, contact, address, room_number])\<close> is Python's truth of each value: a
  string is true when it is not empty, an integer when it is not zero.
\<close>

definition check_in_customer :: "conn \<Rightarrow> world \<Rightarrow> unit result" where
  "check_in_customer conn w0 =
     (case input PromptName (print CheckInBanner w0) of
        (None, w) \<Rightarrow> Raised EOFError w
      | (Some name, w) \<Rightarrow>
     (case input PromptContact w of
        (None, w) \<Rightarrow> Raised EOFError w
      | (Some contact, w) \<Rightarrow>
     (case input PromptAddress w of
        (None, w) \<Rightarrow> Raised EOFError w
      | (Some address, w) \<Rightarrow>
     (case input PromptRoom w of
        (None, w) \<Rightarrow> Raised EOFError w
      | (Some line, w) \<Rightarrow>
     (case py_int line of
        None \<Rightarrow> Returned () (print RoomMustBeInteger w)
      | Some room_number \<Rightarrow>
          if \<not> (name \<noteq> [] \<and> contact \<noteq> [] \<and> address \<noteq> [] \<and> room_number \<noteq> 0)
          then Returned () (print AllFieldsRequired w)
          else
            (case execute conn (INSERT name contact address room_number) w of
               (Inl err, w) \<Rightarrow>
                 if err = 1062 then Returned () (print (RoomInUse room_number) w)
                 else Returned () (print (AnErrorOccurred err) w)
             | (Inr _, w) \<Rightarrow> Returned () (print (CheckInSuccess name room_number) w)))))))"

subsection \<open>\<open>view_all_customers\<close> (lines 89-110)\<close>

text \<open>
  One line of the listing (line 106): the five columns of the \<open>SELECT\<close> of line 94,
  which leaves the address out.
\<close>

definition customer_row :: "customer \<Rightarrow> message" where
  "customer_row c =
     CustomerRow (id_col c) (name_col c) (contact_col c) (room_number_col c)
       (check_in_date_col c)"

definition print_row :: "world \<Rightarrow> customer \<Rightarrow> world" where
  "print_row w c = print (customer_row c) w"

definition view_all_customers :: "conn \<Rightarrow> world \<Rightarrow> unit result" where
  "view_all_customers conn w0 =
     (case execute conn SELECT_ALL (print ViewBanner w0) of
        (Inl err, w) \<Rightarrow> Returned () (print (FetchError err) w)
      | (Inr (fetched, _), w) \<Rightarrow>
          if fetched = [] then Returned () (print NoCustomers w)
          else Returned () (foldl print_row (print (Dashes 85) (print TableHeader w)) fetched))"

subsection \<open>\<open>find_customer\<close> (lines 112-137)\<close>

definition find_customer :: "conn \<Rightarrow> world \<Rightarrow> unit result" where
  "find_customer conn w0 =
     (case input PromptFindRoom (print FindBanner w0) of
        (None, w) \<Rightarrow> Raised EOFError w
      | (Some line, w) \<Rightarrow>
     (case py_int line of
        None \<Rightarrow> Returned () (print InvalidRoomNumber w)
      | Some room_number \<Rightarrow>
     (case execute conn (SELECT_ROOM room_number) w of
        (Inl err, w) \<Rightarrow> Returned () (print (AnErrorOccurred err) w)
      | (Inr (fetched, _), w) \<Rightarrow>
     (case fetchone fetched of
        Some c \<Rightarrow>
          Returned ()
            (print (Dashes 20) (print (ShowCheckInDate (check_in_date_col c))
            (print (ShowRoomNumber (room_number_col c)) (print (ShowAddress (address_col c))
            (print (ShowContact (contact_col c)) (print (ShowName (name_col c))
            (print (ShowID (id_col c)) (print (Dashes 20) (print CustomerFound w)))))))))
      | None \<Rightarrow> Returned () (print (NoCustomerFound room_number) w)))))"

subsection \<open>\<open>check_out_customer\<close> (lines 139-167)\<close>

text \<open>
  The program reads the occupant's name, waits for the operator's answer and only then
  deletes. \<open>other\<close> is what other sessions have committed to the table between the
  \<open>SELECT\<close> and the \<open>DELETE\<close>; with \<open>other = id\<close> this session is alone.
  It enters where the \<open>DELETE\<close> is sent: on every other path the program sends
  nothing after the \<open>SELECT\<close>, and the world returned is what this session made of it.
\<close>

definition interleave :: "(table \<Rightarrow> table) \<Rightarrow> world \<Rightarrow> world" where
  "interleave other w = w\<lparr>customers := map_option other (customers w)\<rparr>"

definition check_out_customer :: "(table \<Rightarrow> table) \<Rightarrow> conn \<Rightarrow> world \<Rightarrow> unit result" where
  "check_out_customer other conn w0 =
     (case input PromptCheckOutRoom (print CheckOutBanner w0) of
        (None, w) \<Rightarrow> Raised EOFError w
      | (Some line, w) \<Rightarrow>
     (case py_int line of
        None \<Rightarrow> Returned () (print InvalidRoomNumber w)
      | Some room_number \<Rightarrow>
     (case execute conn (SELECT_NAME room_number) w of
        (Inl err, w) \<Rightarrow> Returned () (print (AnErrorOccurred err) w)
      | (Inr (fetched, _), w) \<Rightarrow>
     (case fetchone fetched of
        None \<Rightarrow> Returned () (print (RoomNotOccupied room_number) w)
      | Some customer_name \<Rightarrow>
     (case input (PromptConfirm (name_col customer_name) room_number) w of
        (None, w) \<Rightarrow> Raised EOFError w
      | (Some confirm, w) \<Rightarrow>
          if lower confirm = ascii ''y'' then
            (case execute conn (DELETE room_number) (interleave other w) of
               (Inl err, w) \<Rightarrow> Returned () (print (AnErrorOccurred err) w)
             | (Inr (_, rowcount), w) \<Rightarrow>
                 if rowcount > 0 then Returned () (print (CheckOutSuccess room_number) w)
                 else Returned () (print CouldNotProcess w))
          else Returned () (print CheckOutCancelled w))))))"

subsection \<open>\<open>main\<close> (lines 170-205)\<close>

text \<open>The nine lines of the menu, printed at each turn of the loop.\<close>

definition menu :: "world \<Rightarrow> world" where
  "menu w =
     print MenuDashes (print (MenuItem 5) (print (MenuItem 4) (print (MenuItem 3)
     (print (MenuItem 2) (print (MenuItem 1) (print MenuRule (print MenuTitle
     (print MenuRule w))))))))"

text \<open>
  The \<open>while True\<close> loop of lines 177-201. Each turn reads at least the choice, so on
  a finite standard input the loop ends: by choice 5, or by the \<open>EOFError\<close> of an
  \<open>input\<close> that finds no line, which no handler of the program catches.
\<close>

function menu_loop :: "(table \<Rightarrow> table) \<Rightarrow> conn \<Rightarrow> world \<Rightarrow> unit result" where
  "menu_loop other conn w0 =
     (case input PromptChoice (menu w0) of
        (None, w) \<Rightarrow> Raised EOFError w
      | (Some choice, w) \<Rightarrow>
          if choice = ascii ''1'' then
            (case check_in_customer conn w of
               Raised e w \<Rightarrow> Raised e w
             | Returned _ w \<Rightarrow> menu_loop other conn w)
          else if choice = ascii ''2'' then
            (case view_all_customers conn w of
               Raised e w \<Rightarrow> Raised e w
             | Returned _ w \<Rightarrow> menu_loop other conn w)
          else if choice = ascii ''3'' then
            (case find_customer conn w of
               Raised e w \<Rightarrow> Raised e w
             | Returned _ w \<Rightarrow> menu_loop other conn w)
          else if choice = ascii ''4'' then
            (case check_out_customer other conn w of
               Raised e w \<Rightarrow> Raised e w
             | Returned _ w \<Rightarrow> menu_loop other conn w)
          else if choice = ascii ''5'' then Returned () (print Goodbye w)
          else menu_loop other conn (print InvalidChoice w))"
  by pat_completeness auto
termination
proof -
  have pr: "\<And>m w. stdin (print m w) = stdin w"
    by (simp add: print_def)
  have inp_le: "\<And>p w r w'. input p w = (r, w') \<Longrightarrow> length (stdin w') \<le> length (stdin w)"
    by (auto simp: input_def print_def split: list.splits)
  have inp_less: "\<And>p w l w'. (Some l, w') = input p w \<Longrightarrow> length (stdin w') < length (stdin w)"
    by (auto simp: input_def print_def split: list.splits)
  have rn: "\<And>q w r w'. run q w = (r, w') \<Longrightarrow> stdin w' = stdin w"
    by (auto simp: run_def split: stmt.splits option.splits if_splits)
  have ex: "\<And>c q w r w'. execute c q w = (r, w') \<Longrightarrow> stdin w' = stdin w"
    by (auto simp: execute_def Let_def dest: rn split: option.splits if_splits)
  have il: "\<And>other w. stdin (interleave other w) = stdin w"
    by (simp add: interleave_def)
  have fl: "\<And>cs w. stdin (foldl print_row w cs) = stdin w"
  proof -
    fix cs w
    show "stdin (foldl print_row w cs) = stdin w"
      by (induction cs arbitrary: w) (simp_all add: print_row_def pr)
  qed
  have ci: "\<And>conn w u w'. check_in_customer conn w = Returned u w'
      \<Longrightarrow> length (stdin w') \<le> length (stdin w)"
    unfolding check_in_customer_def
    by (auto simp: pr split: prod.splits option.splits sum.splits if_splits
        dest!: inp_le ex)
  have va: "\<And>conn w u w'. view_all_customers conn w = Returned u w'
      \<Longrightarrow> length (stdin w') \<le> length (stdin w)"
    unfolding view_all_customers_def
    by (auto simp: pr fl split: prod.splits sum.splits if_splits dest!: ex)
  have fc: "\<And>conn w u w'. find_customer conn w = Returned u w'
      \<Longrightarrow> length (stdin w') \<le> length (stdin w)"
    unfolding find_customer_def
    by (auto simp: pr split: prod.splits option.splits sum.splits if_splits
        dest!: inp_le ex)
  have co: "\<And>other conn w u w'. check_out_customer other conn w = Returned u w'
      \<Longrightarrow> length (stdin w') \<le> length (stdin w)"
    unfolding check_out_customer_def
    by (auto simp: pr il split: prod.splits option.splits sum.splits if_splits
        dest!: inp_le ex)
  show ?thesis
    by (relation "measure (\<lambda>(other, conn, w). length (stdin w))")
      (auto simp: menu_def pr dest!: inp_less ci va fc co)
qed

declare menu_loop.simps [simp del]

definition main :: "(table \<Rightarrow> table) \<Rightarrow> world \<Rightarrow> unit result" where
  "main other w0 =
     (case setup_database w0 of
        Raised e w \<Rightarrow> Raised e w
      | Returned None w \<Rightarrow> Returned () (print ExitingDatabaseFailure w)
      | Returned (Some conn) w \<Rightarrow>
          (case menu_loop other conn w of
             Raised e w \<Rightarrow> Raised e w
           | Returned _ w \<Rightarrow>
               if is_connected conn w then Returned () (print ConnectionClosed (close conn w))
               else Returned () w))"

subsection \<open>The worlds the program reaches\<close>




subsection \<open>Worlds to run the program in\<close>

text \<open>Three guests, checked in to rooms 305, 101 and 220 in that order.\<close>

definition three_guests :: table where
  "three_guests =
     \<lparr>rows =
        [\<lparr>id_col = 1, name_col = ascii ''Carol Diaz'', contact_col = ascii ''555-0102'',
          address_col = ascii ''3 Elm Rd'', room_number_col = 305, check_in_date_col = 100\<rparr>,
         \<lparr>id_col = 2, name_col = ascii ''Alice Tan'', contact_col = ascii ''555-0100'',
          address_col = ascii ''1 Main St'', room_number_col = 101, check_in_date_col = 200\<rparr>,
         \<lparr>id_col = 3, name_col = ascii ''Dan Roy'', contact_col = ascii ''555-0103'',
          address_col = ascii ''4 Pine Ct'', room_number_col = 220, check_in_date_col = 300\<rparr>],
      auto_increment = 4\<rparr>"

text \<open>
  The store after provisioning, with connection 1 open and the three guests in the table.
  Nothing is waiting on standard input and nothing has been printed.
\<close>

definition front_desk :: world where
  "front_desk =
     \<lparr>db_exists = True, customers = Some three_guests, now = 1000, connections = [1],
      next_conn = 2, connect_fault = None, fault = (\<lambda>_. None), statements = [],
      stdin = [], stdout = []\<rparr>"

text \<open>Another session that checks the guest of a room out.\<close>

definition checked_out_elsewhere :: "int \<Rightarrow> table \<Rightarrow> table" where
  "checked_out_elsewhere r t = t\<lparr>rows := filter (\<lambda>c. room_number_col c \<noteq> r) (rows t)\<rparr>"

text \<open>The front desk after Bob Lee has checked in to room 102, with one line left to read.\<close>

definition bob_checked_in :: world where
  "bob_checked_in =
     front_desk
       \<lparr>customers := Some
          (three_guests
             \<lparr>rows := rows three_guests @
                [\<lparr>id_col = 4, name_col = ascii ''Bob Lee'', contact_col = ascii ''555-0101'',
                  address_col = ascii ''2 Oak Ave'', room_number_col = 102,
                  check_in_date_col = 1000\<rparr>],
              auto_increment := 5\<rparr>),
        statements := [INSERT (ascii ''Bob Lee'') (ascii ''555-0101'') (ascii ''2 Oak Ave'') 102],
        stdin := [ascii '' 102''],
        stdout := [CheckInBanner, PromptName, PromptContact, PromptAddress, PromptRoom,
                   CheckInSuccess (ascii ''Bob Lee'') 102]\<rparr>"

text \<open>A server on which nothing has been created yet.\<close>

definition fresh_server :: world where
  "fresh_server =
     \<lparr>db_exists = False, customers = None, now = 1000, connections = [], next_conn = 0,
      connect_fault = None, fault = (\<lambda>_. None), statements = [], stdin = [], stdout = []\<rparr>"




text \<open>
  The same server when the account may not create databases: \<open>CREATE DATABASE\<close>
  raises error 1044 (access denied).
\<close>

definition create_denied :: world where
  "create_denied =
     fresh_server\<lparr>fault := (\<lambda>q. if q = CREATE_DATABASE then Some 1044 else None)\<rparr>"

section \<open>Properties\<close>

subsection \<open>Reading a line, sending a statement\<close>

lemma input_Cons:
  "stdin w = l # ls \<Longrightarrow> input p w = (Some l, w\<lparr>stdin := ls, stdout := stdout w @ [p]\<rparr>)"
  by (simp add: input_def print_def)

lemma execute_select_room:
  "is_connected conn w \<Longrightarrow> customers w = Some tbl \<Longrightarrow> fault w (SELECT_ROOM r) = None \<Longrightarrow>
   execute conn (SELECT_ROOM r) w =
     (Inr (filter (\<lambda>c. room_number_col c = r) (rows tbl),
           length (filter (\<lambda>c. room_number_col c = r) (rows tbl))),
      w\<lparr>statements := statements w @ [SELECT_ROOM r]\<rparr>)"
  by (simp add: execute_def run_def)

lemma execute_select_name:
  "is_connected conn w \<Longrightarrow> customers w = Some tbl \<Longrightarrow> fault w (SELECT_NAME r) = None \<Longrightarrow>
   execute conn (SELECT_NAME r) w =
     (Inr (filter (\<lambda>c. room_number_col c = r) (rows tbl),
           length (filter (\<lambda>c. room_number_col c = r) (rows tbl))),
      w\<lparr>statements := statements w @ [SELECT_NAME r]\<rparr>)"
  by (simp add: execute_def run_def)

lemma vacant_filter:
  "\<not> occupied tbl r \<Longrightarrow> filter (\<lambda>c. room_number_col c = r) (rows tbl) = []"
  by (auto simp: occupied_def filter_empty_conv)

lemma vacant_keep:
  "\<not> occupied tbl r \<Longrightarrow> filter (\<lambda>c. room_number_col c \<noteq> r) (rows tbl) = rows tbl"
  by (auto simp: occupied_def filter_id_conv)

text \<open>\<open>fetchone\<close> on the rows of an occupied room gives a row of the table, of that room.\<close>

lemma occupied_fetchone:
  assumes "occupied tbl r"
  shows "\<exists>c \<in> set (rows tbl). room_number_col c = r \<and>
           fetchone (filter (\<lambda>c. room_number_col c = r) (rows tbl)) = Some c"
proof -
  from assms have "filter (\<lambda>c. room_number_col c = r) (rows tbl) \<noteq> []"
    by (auto simp: occupied_def filter_empty_conv)
  then obtain c cs where eq: "filter (\<lambda>c. room_number_col c = r) (rows tbl) = c # cs"
    by (cases "filter (\<lambda>c. room_number_col c = r) (rows tbl)") auto
  then have "c \<in> set (filter (\<lambda>c. room_number_col c = r) (rows tbl))"
    by simp
  then have "c \<in> set (rows tbl)" and "room_number_col c = r"
    by auto
  with eq show ?thesis
    by (auto simp: fetchone_def)
qed

lemma execute_delete:
  "is_connected conn w \<Longrightarrow> customers w = Some tbl \<Longrightarrow> fault w (DELETE r) = None \<Longrightarrow>
   execute conn (DELETE r) w =
     (Inr ([], length (filter (\<lambda>c. room_number_col c = r) (rows tbl))),
      w\<lparr>customers := Some (tbl\<lparr>rows := filter (\<lambda>c. room_number_col c \<noteq> r) (rows tbl)\<rparr>),
        statements := statements w @ [DELETE r]\<rparr>)"
  by (simp add: execute_def run_def)


text \<open>
  A check-in that printed its success message was made on an open connection, and left
  exactly one new row, with the counter as its \<open>id\<close> and the clock as its date.
\<close>

lemma check_in_success:
  assumes "customers w = Some tbl" and "\<not> occupied tbl R"
    and "py_int line = Some R"
    and "stdin w = name # contact # address # line # rest"
    and "check_in_customer conn w = Returned () w1"
    and "stdout w1 = stdout w @
           [CheckInBanner, PromptName, PromptContact, PromptAddress, PromptRoom,
            CheckInSuccess name R]"
  shows "is_connected conn w \<and>
         w1 = w\<lparr>customers := Some
                  (tbl\<lparr>rows := rows tbl @
                         [\<lparr>id_col = auto_increment tbl, name_col = name, contact_col = contact,
                           address_col = address, room_number_col = R,
                           check_in_date_col = now w\<rparr>],
                       auto_increment := auto_increment tbl + 1\<rparr>),
                statements := statements w @ [INSERT name contact address R], stdin := rest,
                stdout := stdout w @
                  [CheckInBanner, PromptName, PromptContact, PromptAddress, PromptRoom,
                   CheckInSuccess name R]\<rparr>"
proof (cases "fault w (INSERT name contact address R)")
  case None
  with assms show ?thesis
    by (auto simp: check_in_customer_def input_Cons print_def execute_def run_def
        is_connected_def split: if_splits)
next
  case (Some e)
  with assms show ?thesis
    by (auto simp: check_in_customer_def input_Cons print_def execute_def
        is_connected_def split: if_splits)
qed

text \<open>The loop of line 104 appends one line for each row fetched.\<close>

lemma foldl_print_row:
  "foldl print_row w cs = w\<lparr>stdout := stdout w @ map customer_row cs\<rparr>"
  by (induction cs arbitrary: w) (simp_all add: print_row_def print_def)

text \<open>Provisioning on a server that raises nothing but the error of an existing database.\<close>

lemma setup_database_ok:
  assumes "connect_fault w = None" and "fault w CREATE_DATABASE = None"
    and "fault w CREATE_TABLE = None"
  shows "setup_database w =
           Returned (Some (Suc (next_conn w)))
             (w\<lparr>db_exists := True,
                customers := Some (case customers w of
                                     None \<Rightarrow> \<lparr>rows = [], auto_increment = 1\<rparr>
                                   | Some t \<Rightarrow> t),
                connections := removeAll (next_conn w) (connections w) @ [Suc (next_conn w)],
                next_conn := Suc (Suc (next_conn w)),
                statements := statements w @ [CREATE_DATABASE, CREATE_TABLE],
                stdout := stdout w @ [EnsuringTable, DatabaseReady]\<rparr>)"
proof (cases "db_exists w")
  case True
  with assms show ?thesis
    by (cases "customers w")
      (simp_all add: setup_database_def connect_def execute_def run_def close_def print_def
        is_connected_def)
next
  case False
  with assms show ?thesis
    by (cases "customers w")
      (simp_all add: setup_database_def connect_def execute_def run_def close_def print_def
        is_connected_def)
qed

text \<open>An error of \<open>CREATE DATABASE\<close> other than 1007 ends provisioning with \<open>None\<close>.\<close>

lemma setup_database_create_error:
  assumes "connect_fault w = None" and "fault w CREATE_DATABASE = Some e"
    and "e \<noteq> ER_DB_CREATE_EXISTS"
  shows "setup_database w =
           Returned None
             (w\<lparr>connections := connections w @ [next_conn w],
                next_conn := Suc (next_conn w),
                statements := statements w @ [CREATE_DATABASE],
                stdout := stdout w @ [DatabaseSetupError e]\<rparr>)"
  using assms
  by (simp add: setup_database_def connect_def execute_def print_def is_connected_def)

subsection \<open>Room 0 stays vacant\<close>













subsection \<open>What \<open>int\<close> reads\<close>

lemmas py_int_simps =
  ascii_def py_int_def strip_def to_ascii_def is_space_def is_digit_def digit_val_def
  MAX_STR_DIGITS_def Let_def

lemmas lower_simps = ascii_def lower_def lower_char_def

text \<open>
  Lines that \<open>int\<close> refuses: a separator of ASCII (code points 28 to 31) is not
  white space for it, before or after the digits, and underscores do not come in pairs.
\<close>

lemma py_int_refuses:
  "py_int (31 # ascii ''101'') = None"
  "py_int (28 # ascii ''0'') = None"
  "py_int (ascii ''12'' @ [31]) = None"
  "py_int (ascii ''1__0'') = None"
  by (simp_all add: py_int_simps)

text \<open>
  Lines that it reads: white space and digits of other scripts, a sign, underscores
  between digits.
\<close>

lemma py_int_reads:
  "py_int (160 # ascii ''12'' @ [8195]) = Some 12"
  "py_int [1633, 1634, 1635] = Some 123"
  "py_int (ascii ''-1_000'') = Some (- 1000)"
  by (simp_all add: py_int_simps is_unicode_space_def decimal_def decimal_zeros_def)

text \<open>A line of more than 4300 digits is refused.\<close>

lemma strip_digits:
  assumes "\<forall>c \<in> set ds. is_digit c"
  shows "strip (map to_ascii ds) = ds"
proof -
  have m: "map to_ascii ds = ds"
    using assms by (induction ds) (auto simp: to_ascii_def is_digit_def)
  have d: "dropWhile is_space xs = xs" if "\<forall>c \<in> set xs. is_digit c" for xs
    using that by (cases xs) (auto simp: is_digit_def is_space_def)
  from assms have "\<forall>c \<in> set (rev ds). is_digit c" by simp
  from d [OF this] d [OF assms] m show ?thesis
    by (simp add: strip_def)
qed

lemma py_int_too_many_digits:
  assumes "\<forall>c \<in> set ds. is_digit c" and "length ds > MAX_STR_DIGITS"
  shows "py_int ds = None"
proof -
  from assms(2) obtain c cs where ds: "ds = c # cs"
    by (cases ds) auto
  from assms(1) have f: "filter is_digit ds = ds"
    by (simp add: filter_id_conv)
  from assms(1) ds have "is_digit c" by simp
  then have nosign: "c \<noteq> of_char (CHR ''-'')" "c \<noteq> of_char (CHR ''+'')"
    by (auto simp: is_digit_def)
  show ?thesis
    using strip_digits [OF assms(1)] assms(2) f nosign
    by (simp add: py_int_def ds Let_def)
qed


subsection \<open>Input that is not a number\<close>

text \<open>
  C7. When the line typed for the room number is not an integer for \<open>int\<close>,
  \<open>find_customer\<close> and \<open>check_out_customer\<close> both print the invalid-input message
  and return. The world they leave differs from the one they found only in the line read
  and the lines printed: no statement reached the server and the table is as it was.
\<close>

theorem non_integer_room_touches_no_storage:
  assumes "py_int line = None" and "stdin w = line # rest"
  shows "find_customer conn w =
           Returned () (w\<lparr>stdin := rest,
                          stdout := stdout w @ [FindBanner, PromptFindRoom, InvalidRoomNumber]\<rparr>)
       \<and> check_out_customer other conn w =
           Returned () (w\<lparr>stdin := rest,
                          stdout := stdout w @
                            [CheckOutBanner, PromptCheckOutRoom, InvalidRoomNumber]\<rparr>)"
  using assms
  by (simp add: find_customer_def check_out_customer_def input_Cons print_def)

theorem non_integer_room_witness:
  "py_int (ascii ''abc'') = None
   \<and> find_customer 1 (front_desk\<lparr>stdin := [ascii ''abc'']\<rparr>) =
       Returned () (front_desk\<lparr>stdout := [FindBanner, PromptFindRoom, InvalidRoomNumber]\<rparr>)
   \<and> check_out_customer id 1 (front_desk\<lparr>stdin := [ascii ''abc'']\<rparr>) =
       Returned ()
         (front_desk\<lparr>stdout := [CheckOutBanner, PromptCheckOutRoom, InvalidRoomNumber]\<rparr>)
   \<and> py_int (31 # ascii ''101'') = None
   \<and> find_customer 1 (front_desk\<lparr>stdin := [31 # ascii ''101'', ascii ''y'']\<rparr>) =
       Returned ()
         (front_desk\<lparr>stdin := [ascii ''y''],
                      stdout := [FindBanner, PromptFindRoom, InvalidRoomNumber]\<rparr>)
   \<and> check_out_customer id 1 (front_desk\<lparr>stdin := [31 # ascii ''101'', ascii ''y'']\<rparr>) =
       Returned ()
         (front_desk\<lparr>stdin := [ascii ''y''],
                      stdout := [CheckOutBanner, PromptCheckOutRoom, InvalidRoomNumber]\<rparr>)"
  using non_integer_room_touches_no_storage
          [of "ascii ''abc''" "front_desk\<lparr>stdin := [ascii ''abc'']\<rparr>" "[]" 1 id]
    non_integer_room_touches_no_storage
          [of "31 # ascii ''101''" "front_desk\<lparr>stdin := [31 # ascii ''101'', ascii ''y'']\<rparr>"
              "[ascii ''y'']" 1 id]
  by (simp add: py_int_simps front_desk_def)

subsection \<open>Room number zero\<close>

text \<open>
  C10. A check-in whose name, contact and address are not empty and whose room number
  reads as the integer 0 prints "All fields are required" and returns: the truth test of
  line 70 takes the integer 0 for a missing field. No \<open>INSERT\<close> is sent; only the
  lines read and printed change.
\<close>

theorem room_zero_is_a_missing_field:
  assumes "name \<noteq> []" and "contact \<noteq> []" and "address \<noteq> []"
    and "py_int line = Some 0"
    and "stdin w = name # contact # address # line # rest"
  shows "check_in_customer conn w =
           Returned () (w\<lparr>stdin := rest,
                          stdout := stdout w @
                            [CheckInBanner, PromptName, PromptContact, PromptAddress,
                             PromptRoom, AllFieldsRequired]\<rparr>)"
  using assms
  by (simp add: check_in_customer_def input_Cons print_def)

theorem room_zero_witness:
  "py_int (ascii ''0'') = Some 0
   \<and> check_in_customer 1
       (front_desk
          \<lparr>stdin := [ascii ''Bob Lee'', ascii ''555-0101'', ascii ''2 Oak Ave'', ascii ''0'']\<rparr>) =
       Returned ()
         (front_desk\<lparr>stdout := [CheckInBanner, PromptName, PromptContact, PromptAddress,
                                 PromptRoom, AllFieldsRequired]\<rparr>)
   \<and> py_int [1632] = Some 0
   \<and> check_in_customer 1
       (front_desk
          \<lparr>stdin := [ascii ''Bob Lee'', ascii ''555-0101'', ascii ''2 Oak Ave'', [1632]]\<rparr>) =
       Returned ()
         (front_desk\<lparr>stdout := [CheckInBanner, PromptName, PromptContact, PromptAddress,
                                 PromptRoom, AllFieldsRequired]\<rparr>)"
  using room_zero_is_a_missing_field
          [of "ascii ''Bob Lee''" "ascii ''555-0101''" "ascii ''2 Oak Ave''" "ascii ''0''"
              "front_desk
                 \<lparr>stdin := [ascii ''Bob Lee'', ascii ''555-0101'', ascii ''2 Oak Ave'',
                            ascii ''0'']\<rparr>" "[]" 1]
    room_zero_is_a_missing_field
          [of "ascii ''Bob Lee''" "ascii ''555-0101''" "ascii ''2 Oak Ave''" "[1632]"
              "front_desk
                 \<lparr>stdin := [ascii ''Bob Lee'', ascii ''555-0101'', ascii ''2 Oak Ave'',
                            [1632]]\<rparr>" "[]" 1]
  by (simp add: py_int_simps is_unicode_space_def decimal_def decimal_zeros_def
      front_desk_def)

subsection \<open>A vacant room\<close>

text \<open>
  C3. For a room number R with no row in the table, on an open connection to a store that
  answers, \<open>find_customer\<close> prints "No customer found in room number R" and
  \<open>check_out_customer\<close> prints "Room R is not occupied". In the check-out the one
  statement sent is the \<open>SELECT\<close> of the name: no \<open>DELETE\<close> follows, the
  confirmation is not asked for, and the table is unchanged.
\<close>

theorem vacant_room_is_not_found:
  assumes "is_connected conn w" and "customers w = Some tbl"
    and "fault w (SELECT_ROOM R) = None" and "fault w (SELECT_NAME R) = None"
    and "py_int line = Some R" and "stdin w = line # rest"
    and "\<not> occupied tbl R"
  shows "find_customer conn w =
           Returned () (w\<lparr>statements := statements w @ [SELECT_ROOM R], stdin := rest,
                          stdout := stdout w @ [FindBanner, PromptFindRoom, NoCustomerFound R]\<rparr>)
       \<and> check_out_customer other conn w =
           Returned () (w\<lparr>statements := statements w @ [SELECT_NAME R], stdin := rest,
                          stdout := stdout w @
                            [CheckOutBanner, PromptCheckOutRoom, RoomNotOccupied R]\<rparr>)"
  using assms
  by (simp add: find_customer_def check_out_customer_def input_Cons print_def
      execute_select_room execute_select_name is_connected_def vacant_filter fetchone_def)

theorem vacant_room_witness:
  "is_connected 1 front_desk \<and> py_int (ascii ''102'') = Some 102
   \<and> \<not> occupied three_guests 102
   \<and> find_customer 1 (front_desk\<lparr>stdin := [ascii ''102'', ascii ''y'']\<rparr>) =
       Returned ()
         (front_desk\<lparr>statements := [SELECT_ROOM 102], stdin := [ascii ''y''],
                      stdout := [FindBanner, PromptFindRoom, NoCustomerFound 102]\<rparr>)
   \<and> check_out_customer id 1 (front_desk\<lparr>stdin := [ascii ''102'', ascii ''y'']\<rparr>) =
       Returned ()
         (front_desk\<lparr>statements := [SELECT_NAME 102], stdin := [ascii ''y''],
                      stdout := [CheckOutBanner, PromptCheckOutRoom, RoomNotOccupied 102]\<rparr>)"
  using vacant_room_is_not_found
          [of 1 "front_desk\<lparr>stdin := [ascii ''102'', ascii ''y'']\<rparr>" three_guests 102
              "ascii ''102''" "[ascii ''y'']" id]
  by (simp add: py_int_simps front_desk_def three_guests_def is_connected_def occupied_def)

subsection \<open>Check-out: the answer to the confirmation\<close>

text \<open>
  C4. For an occupied room R, on an open connection to a store that answers the
  \<open>SELECT\<close>, a check-out whose confirmation is anything but \<open>y\<close> or \<open>Y\<close>
  prints "Check-out cancelled" and returns. The one statement sent is the \<open>SELECT\<close>
  of the name; the table is unchanged, so the record for R is still there.
\<close>

theorem declined_check_out_is_cancelled:
  assumes "is_connected conn w" and "customers w = Some tbl"
    and "fault w (SELECT_NAME R) = None"
    and "py_int line = Some R" and "occupied tbl R"
    and "lower answer \<noteq> ascii ''y''"
    and "stdin w = line # answer # rest"
  shows "\<exists>c \<in> set (rows tbl). room_number_col c = R \<and>
           check_out_customer other conn w =
             Returned ()
               (w\<lparr>statements := statements w @ [SELECT_NAME R], stdin := rest,
                  stdout := stdout w @
                    [CheckOutBanner, PromptCheckOutRoom, PromptConfirm (name_col c) R,
                     CheckOutCancelled]\<rparr>)"
proof -
  from occupied_fetchone [OF assms(5)] obtain c where
    c: "c \<in> set (rows tbl)" "room_number_col c = R"
       "fetchone (filter (\<lambda>c. room_number_col c = R) (rows tbl)) = Some c"
    by blast
  have "check_out_customer other conn w =
          Returned ()
            (w\<lparr>statements := statements w @ [SELECT_NAME R], stdin := rest,
               stdout := stdout w @
                 [CheckOutBanner, PromptCheckOutRoom, PromptConfirm (name_col c) R,
                  CheckOutCancelled]\<rparr>)"
    using assms c(3)
    by (simp add: check_out_customer_def input_Cons print_def execute_select_name
        is_connected_def)
  with c show ?thesis by blast
qed

theorem declined_check_out_witness:
  "is_connected 1 front_desk \<and> py_int (ascii ''101'') = Some 101 \<and> occupied three_guests 101
   \<and> lower (ascii ''no'') \<noteq> ascii ''y''
   \<and> check_out_customer id 1 (front_desk\<lparr>stdin := [ascii ''101'', ascii ''no'']\<rparr>) =
       Returned ()
         (front_desk\<lparr>statements := [SELECT_NAME 101],
                      stdout := [CheckOutBanner, PromptCheckOutRoom,
                                 PromptConfirm (ascii ''Alice Tan'') 101, CheckOutCancelled]\<rparr>)"
  using declined_check_out_is_cancelled
          [of 1 "front_desk\<lparr>stdin := [ascii ''101'', ascii ''no'']\<rparr>" three_guests 101 "ascii ''101''"
              "ascii ''no''" "[]" id]
  by (auto simp: py_int_simps lower_simps front_desk_def three_guests_def is_connected_def
      occupied_def)

text \<open>
  C5. For a room R that the \<open>SELECT\<close> finds occupied and that the operator confirms
  with \<open>y\<close>, when other sessions have removed the record before the \<open>DELETE\<close>
  runs, the \<open>DELETE\<close> removes no row and the program prints "Could not process
  check-out", not the success message.
\<close>

theorem vanished_record_is_not_a_success:
  assumes "is_connected conn w" and "customers w = Some tbl"
    and "fault w (SELECT_NAME R) = None" and "fault w (DELETE R) = None"
    and "py_int line = Some R" and "occupied tbl R"
    and "lower answer = ascii ''y''"
    and "\<not> occupied (other tbl) R"
    and "stdin w = line # answer # rest"
  shows "\<exists>c \<in> set (rows tbl). room_number_col c = R \<and>
           check_out_customer other conn w =
             Returned ()
               (w\<lparr>customers := Some (other tbl),
                  statements := statements w @ [SELECT_NAME R, DELETE R], stdin := rest,
                  stdout := stdout w @
                    [CheckOutBanner, PromptCheckOutRoom, PromptConfirm (name_col c) R,
                     CouldNotProcess]\<rparr>)"
proof -
  from occupied_fetchone [OF assms(6)] obtain c where
    c: "c \<in> set (rows tbl)" "room_number_col c = R"
       "fetchone (filter (\<lambda>c. room_number_col c = R) (rows tbl)) = Some c"
    by blast
  have "check_out_customer other conn w =
          Returned ()
            (w\<lparr>customers := Some (other tbl),
               statements := statements w @ [SELECT_NAME R, DELETE R], stdin := rest,
               stdout := stdout w @
                 [CheckOutBanner, PromptCheckOutRoom, PromptConfirm (name_col c) R,
                  CouldNotProcess]\<rparr>)"
    using assms c(3)
    by (simp add: check_out_customer_def input_Cons print_def execute_select_name
        execute_delete [where tbl = "other tbl"] interleave_def
        is_connected_def vacant_filter vacant_keep)
  with c show ?thesis by blast
qed

theorem vanished_record_witness:
  "is_connected 1 front_desk \<and> py_int (ascii ''101'') = Some 101 \<and> occupied three_guests 101
   \<and> lower (ascii ''Y'') = ascii ''y'' \<and> \<not> occupied (checked_out_elsewhere 101 three_guests) 101
   \<and> check_out_customer (checked_out_elsewhere 101) 1
        (front_desk\<lparr>stdin := [ascii ''101'', ascii ''Y'']\<rparr>) =
       Returned ()
         (front_desk\<lparr>customers := Some (checked_out_elsewhere 101 three_guests),
                      statements := [SELECT_NAME 101, DELETE 101],
                      stdout := [CheckOutBanner, PromptCheckOutRoom,
                                 PromptConfirm (ascii ''Alice Tan'') 101, CouldNotProcess]\<rparr>)"
  using vanished_record_is_not_a_success
          [of 1 "front_desk\<lparr>stdin := [ascii ''101'', ascii ''Y'']\<rparr>" three_guests 101 "ascii ''101''"
              "ascii ''Y''" "checked_out_elsewhere 101" "[]"]
  by (auto simp: py_int_simps lower_simps front_desk_def three_guests_def is_connected_def
      occupied_def checked_out_elsewhere_def)

subsection \<open>Check-in to an occupied room\<close>





subsection \<open>Check-in, then find\<close>

text \<open>
  C2. Let name, contact and address be non-empty and R a room with no row in the table.
  If the check-in of these values to R succeeds (it prints its success message), then a
  \<open>find_customer\<close> for R made at once, on a store that answers the \<open>SELECT\<close>,
  prints a record whose name, contact, address and room number are the values typed,
  whose \<open>id\<close> is the table's counter at the check-in and whose date is the server's
  clock.
\<close>

theorem check_in_then_find_round_trip:
  assumes "name \<noteq> []" and "contact \<noteq> []" and "address \<noteq> []"
    and "customers w = Some tbl" and "\<not> occupied tbl R"
    and "py_int line = Some R" and "py_int line' = Some R"
    and "stdin w = name # contact # address # line # line' # rest"
    and "check_in_customer conn w = Returned () w1"
    and "stdout w1 = stdout w @
           [CheckInBanner, PromptName, PromptContact, PromptAddress, PromptRoom,
            CheckInSuccess name R]"
    and "fault w (SELECT_ROOM R) = None"
  shows "find_customer conn w1 =
           Returned ()
             (w1\<lparr>statements := statements w1 @ [SELECT_ROOM R], stdin := rest,
                 stdout := stdout w1 @
                   [FindBanner, PromptFindRoom, CustomerFound, Dashes 20,
                    ShowID (auto_increment tbl), ShowName name, ShowContact contact,
                    ShowAddress address, ShowRoomNumber R, ShowCheckInDate (now w),
                    Dashes 20]\<rparr>)"
proof -
  from check_in_success [OF assms(4,5,6,8,9,10)]
  have w1: "w1 = w\<lparr>customers := Some
                  (tbl\<lparr>rows := rows tbl @
                         [\<lparr>id_col = auto_increment tbl, name_col = name, contact_col = contact,
                           address_col = address, room_number_col = R,
                           check_in_date_col = now w\<rparr>],
                       auto_increment := auto_increment tbl + 1\<rparr>),
                statements := statements w @ [INSERT name contact address R],
                stdin := line' # rest,
                stdout := stdout w @
                  [CheckInBanner, PromptName, PromptContact, PromptAddress, PromptRoom,
                   CheckInSuccess name R]\<rparr>"
    and conn: "is_connected conn w"
    by simp_all
  show ?thesis
    unfolding w1 using assms(5,7,11) conn
    by (simp add: find_customer_def input_Cons print_def execute_def run_def
        is_connected_def vacant_filter fetchone_def)
qed

theorem round_trip_witness:
  "\<not> occupied three_guests 102 \<and> py_int (ascii ''102'') = Some 102 \<and> py_int (ascii '' 102'') = Some 102
   \<and> check_in_customer 1
        (front_desk\<lparr>stdin := [ascii ''Bob Lee'', ascii ''555-0101'', ascii ''2 Oak Ave'', ascii ''102'', ascii '' 102'']\<rparr>) =
       Returned () bob_checked_in
   \<and> find_customer 1 bob_checked_in =
       Returned ()
         (bob_checked_in
            \<lparr>statements := [INSERT (ascii ''Bob Lee'') (ascii ''555-0101'') (ascii ''2 Oak Ave'') 102, SELECT_ROOM 102],
             stdin := [],
             stdout := [CheckInBanner, PromptName, PromptContact, PromptAddress, PromptRoom,
                        CheckInSuccess (ascii ''Bob Lee'') 102,
                        FindBanner, PromptFindRoom, CustomerFound, Dashes 20, ShowID 4,
                        ShowName (ascii ''Bob Lee''), ShowContact (ascii ''555-0101''),
                        ShowAddress (ascii ''2 Oak Ave''), ShowRoomNumber 102, ShowCheckInDate 1000,
                        Dashes 20]\<rparr>)"
proof -
  let ?w = "front_desk\<lparr>stdin := [ascii ''Bob Lee'', ascii ''555-0101'', ascii ''2 Oak Ave'', ascii ''102'', ascii '' 102'']\<rparr>"
  have vacant: "\<not> occupied three_guests 102"
    by (simp add: occupied_def three_guests_def)
  have p1: "py_int (ascii ''102'') = Some 102" and p2: "py_int (ascii '' 102'') = Some 102"
    by (simp_all add: py_int_simps)
  have ci: "check_in_customer 1 ?w = Returned () bob_checked_in"
    by (simp add: check_in_customer_def input_def print_def py_int_simps execute_def run_def
        is_connected_def front_desk_def bob_checked_in_def three_guests_def occupied_def)
  from check_in_then_find_round_trip
         [of "ascii ''Bob Lee''" "ascii ''555-0101''" "ascii ''2 Oak Ave''" ?w three_guests 102 "ascii ''102''"
             "ascii '' 102''" "[]" 1 bob_checked_in, OF _ _ _ _ vacant p1 p2 _ ci]
  have "find_customer 1 bob_checked_in =
       Returned ()
         (bob_checked_in
            \<lparr>statements := statements bob_checked_in @ [SELECT_ROOM 102],
             stdin := [],
             stdout := stdout bob_checked_in @
                   [FindBanner, PromptFindRoom, CustomerFound, Dashes 20,
                    ShowID (auto_increment three_guests), ShowName (ascii ''Bob Lee''),
                    ShowContact (ascii ''555-0101''), ShowAddress (ascii ''2 Oak Ave''), ShowRoomNumber 102,
                    ShowCheckInDate (now ?w), Dashes 20]\<rparr>)"
    by (simp add: front_desk_def bob_checked_in_def ascii_def)
  then have "find_customer 1 bob_checked_in =
       Returned ()
         (bob_checked_in
            \<lparr>statements := [INSERT (ascii ''Bob Lee'') (ascii ''555-0101'') (ascii ''2 Oak Ave'') 102, SELECT_ROOM 102],
             stdin := [],
             stdout := [CheckInBanner, PromptName, PromptContact, PromptAddress, PromptRoom,
                        CheckInSuccess (ascii ''Bob Lee'') 102,
                        FindBanner, PromptFindRoom, CustomerFound, Dashes 20, ShowID 4,
                        ShowName (ascii ''Bob Lee''), ShowContact (ascii ''555-0101''),
                        ShowAddress (ascii ''2 Oak Ave''), ShowRoomNumber 102, ShowCheckInDate 1000,
                        Dashes 20]\<rparr>)"
    by (simp add: front_desk_def bob_checked_in_def three_guests_def)
  with vacant p1 p2 ci show ?thesis by blast
qed

subsection \<open>The listing\<close>

text \<open>
  C6. On an open connection to a store that answers the \<open>SELECT\<close>,
  \<open>view_all_customers\<close> prints one line for each row of the table and no other, in
  ascending order of room number. When the table has no row it prints "No customers are
  currently checked in" and returns normally: no error message is printed.
\<close>

theorem listing_is_sorted_and_complete:
  assumes "is_connected conn w" and "customers w = Some tbl"
    and "fault w SELECT_ALL = None"
  shows "\<exists>listed. sorted (map room_number_col listed) \<and> mset listed = mset (rows tbl) \<and>
           view_all_customers conn w =
             Returned ()
               (w\<lparr>statements := statements w @ [SELECT_ALL],
                  stdout := stdout w @
                    (if listed = [] then [ViewBanner, NoCustomers]
                     else [ViewBanner, TableHeader, Dashes 85] @ map customer_row listed)\<rparr>)"
proof (intro exI conjI)
  show "sorted (map room_number_col (sort_key room_number_col (rows tbl)))"
    by (rule sorted_sort_key)
  show "mset (sort_key room_number_col (rows tbl)) = mset (rows tbl)"
    by simp
  show "view_all_customers conn w =
          Returned ()
            (w\<lparr>statements := statements w @ [SELECT_ALL],
               stdout := stdout w @
                 (if sort_key room_number_col (rows tbl) = [] then [ViewBanner, NoCustomers]
                  else [ViewBanner, TableHeader, Dashes 85] @
                       map customer_row (sort_key room_number_col (rows tbl)))\<rparr>)"
    using assms
    by (simp add: view_all_customers_def execute_def run_def print_def is_connected_def
        foldl_print_row)
qed

theorem listing_witness:
  "is_connected 1 front_desk
   \<and> (\<exists>listed. sorted (map room_number_col listed) \<and> mset listed = mset (rows three_guests) \<and>
        view_all_customers 1 front_desk =
          Returned ()
            (front_desk\<lparr>statements := [SELECT_ALL],
               stdout :=
                 (if listed = [] then [ViewBanner, NoCustomers]
                  else [ViewBanner, TableHeader, Dashes 85] @ map customer_row listed)\<rparr>))
   \<and> view_all_customers 1 front_desk =
       Returned ()
         (front_desk\<lparr>statements := [SELECT_ALL],
                      stdout := [ViewBanner, TableHeader, Dashes 85,
                                 CustomerRow 2 (ascii ''Alice Tan'') (ascii ''555-0100'') 101 200,
                                 CustomerRow 3 (ascii ''Dan Roy'') (ascii ''555-0103'') 220 300,
                                 CustomerRow 1 (ascii ''Carol Diaz'') (ascii ''555-0102'') 305 100]\<rparr>)"
  using listing_is_sorted_and_complete [of 1 front_desk three_guests]
  by (simp add: front_desk_def three_guests_def is_connected_def view_all_customers_def
      execute_def run_def print_def print_row_def customer_row_def)

subsection \<open>Provisioning\<close>

text \<open>
  C8. On a server that accepts the connections, \<open>setup_database\<close> run twice in
  succession returns a connection both times when the server raises nothing but the
  error of an existing database: the first run leaves the database and the table in
  place (the table it found, or an empty one), the second meets the existing database,
  passes over its error, and leaves the table as the first run left it. When
  \<open>CREATE DATABASE\<close> raises any other error the run prints it and returns no
  connection, and neither database nor table is touched.
\<close>

theorem provisioning_is_idempotent:
  assumes "connect_fault w = None"
  shows "(fault w CREATE_DATABASE = None \<and> fault w CREATE_TABLE = None \<longrightarrow>
            (\<exists>c1 w1 c2 w2.
               setup_database w = Returned (Some c1) w1 \<and>
               setup_database w1 = Returned (Some c2) w2 \<and>
               db_exists w1 \<and>
               customers w1 = Some (case customers w of
                                      None \<Rightarrow> \<lparr>rows = [], auto_increment = 1\<rparr>
                                    | Some t \<Rightarrow> t) \<and>
               db_exists w2 \<and> customers w2 = customers w1 \<and>
               stdout w2 =
                 stdout w @ [EnsuringTable, DatabaseReady, EnsuringTable, DatabaseReady]))
       \<and> (\<forall>e. fault w CREATE_DATABASE = Some e \<and> e \<noteq> ER_DB_CREATE_EXISTS \<longrightarrow>
            (\<exists>w1. setup_database w = Returned None w1 \<and>
                  stdout w1 = stdout w @ [DatabaseSetupError e] \<and>
                  db_exists w1 = db_exists w \<and> customers w1 = customers w))"
proof (intro conjI impI allI)
  assume ok: "fault w CREATE_DATABASE = None \<and> fault w CREATE_TABLE = None"
  let ?w1 = "w\<lparr>db_exists := True,
                customers := Some (case customers w of
                                     None \<Rightarrow> \<lparr>rows = [], auto_increment = 1\<rparr>
                                   | Some t \<Rightarrow> t),
                connections := removeAll (next_conn w) (connections w) @ [Suc (next_conn w)],
                next_conn := Suc (Suc (next_conn w)),
                statements := statements w @ [CREATE_DATABASE, CREATE_TABLE],
                stdout := stdout w @ [EnsuringTable, DatabaseReady]\<rparr>"
  have first: "setup_database w = Returned (Some (Suc (next_conn w))) ?w1"
    using assms ok by (simp add: setup_database_ok)
  have "connect_fault ?w1 = None" and "fault ?w1 CREATE_DATABASE = None"
    and "fault ?w1 CREATE_TABLE = None"
    using assms ok by simp_all
  from setup_database_ok [OF this]
  obtain w2 where second: "setup_database ?w1 = Returned (Some (Suc (next_conn ?w1))) w2"
    and w2: "db_exists w2" "customers w2 = customers ?w1"
      "stdout w2 = stdout ?w1 @ [EnsuringTable, DatabaseReady]"
    by simp
  show "\<exists>c1 w1 c2 w2.
          setup_database w = Returned (Some c1) w1 \<and>
          setup_database w1 = Returned (Some c2) w2 \<and>
          db_exists w1 \<and>
          customers w1 = Some (case customers w of
                                 None \<Rightarrow> \<lparr>rows = [], auto_increment = 1\<rparr>
                               | Some t \<Rightarrow> t) \<and>
          db_exists w2 \<and> customers w2 = customers w1 \<and>
          stdout w2 = stdout w @ [EnsuringTable, DatabaseReady, EnsuringTable, DatabaseReady]"
    using first second w2
    by (intro exI [of _ "Suc (next_conn w)"] exI [of _ ?w1] exI [of _ "Suc (next_conn ?w1)"]
        exI [of _ w2]) simp
next
  fix e
  assume "fault w CREATE_DATABASE = Some e \<and> e \<noteq> ER_DB_CREATE_EXISTS"
  with assms show "\<exists>w1. setup_database w = Returned None w1 \<and>
                  stdout w1 = stdout w @ [DatabaseSetupError e] \<and>
                  db_exists w1 = db_exists w \<and> customers w1 = customers w"
    by (simp add: setup_database_create_error)
qed

theorem provisioning_witness:
  "connect_fault fresh_server = None
   \<and> (\<exists>c1 w1 c2 w2.
         setup_database fresh_server = Returned (Some c1) w1 \<and>
         setup_database w1 = Returned (Some c2) w2 \<and>
         db_exists w1 \<and> customers w1 = Some \<lparr>rows = [], auto_increment = 1\<rparr> \<and>
         db_exists w2 \<and> customers w2 = customers w1 \<and>
         stdout w2 = [EnsuringTable, DatabaseReady, EnsuringTable, DatabaseReady])
   \<and> connect_fault create_denied = None \<and> fault create_denied CREATE_DATABASE = Some 1044
   \<and> (\<exists>w1. setup_database create_denied = Returned None w1 \<and>
             stdout w1 = [DatabaseSetupError 1044] \<and>
             \<not> db_exists w1 \<and> customers w1 = None)"
  using provisioning_is_idempotent [of fresh_server]
    provisioning_is_idempotent [of create_denied]
  by (simp add: fresh_server_def create_denied_def ER_DB_CREATE_EXISTS_def)

subsection \<open>The connection at the end of the program\<close>

text \<open>
  C9, as the program has it. When \<open>setup_database\<close> has returned a connection and the
  loop ends by choice 5, \<open>main\<close> closes that connection if it is still open, so that
  it is not open when the program ends.
\<close>

theorem normal_exit_closes_connection:
  assumes "setup_database w = Returned (Some conn) w1"
    and "menu_loop other conn w1 = Returned () w2"
  shows "main other w =
           Returned () (if is_connected conn w2 then print ConnectionClosed (close conn w2)
                        else w2)
       \<and> \<not> is_connected conn
             (if is_connected conn w2 then print ConnectionClosed (close conn w2) else w2)"
  using assms
  by (simp add: main_def is_connected_def close_def print_def)

theorem normal_exit_witness:
  "setup_database (fresh_server\<lparr>stdin := [ascii ''5'']\<rparr>) =
     Returned (Some 1)
       (fresh_server\<lparr>db_exists := True, customers := Some \<lparr>rows = [], auto_increment = 1\<rparr>,
                      connections := [1], next_conn := 2,
                      statements := [CREATE_DATABASE, CREATE_TABLE], stdin := [ascii ''5''],
                      stdout := [EnsuringTable, DatabaseReady]\<rparr>)
   \<and> main id (fresh_server\<lparr>stdin := [ascii ''5'']\<rparr>) =
     Returned ()
       (fresh_server\<lparr>db_exists := True, customers := Some \<lparr>rows = [], auto_increment = 1\<rparr>,
                      connections := [], next_conn := 2,
                      statements := [CREATE_DATABASE, CREATE_TABLE],
                      stdout := [EnsuringTable, DatabaseReady, MenuRule, MenuTitle, MenuRule,
                                 MenuItem 1, MenuItem 2, MenuItem 3, MenuItem 4, MenuItem 5,
                                 MenuDashes, PromptChoice, Goodbye, ConnectionClosed]\<rparr>)"
proof -
  let ?w1 = "fresh_server\<lparr>db_exists := True,
                      customers := Some \<lparr>rows = [], auto_increment = 1\<rparr>,
                      connections := [1], next_conn := 2,
                      statements := [CREATE_DATABASE, CREATE_TABLE], stdin := [ascii ''5''],
                      stdout := [EnsuringTable, DatabaseReady]\<rparr>"
  let ?w2 = "fresh_server\<lparr>db_exists := True,
                      customers := Some \<lparr>rows = [], auto_increment = 1\<rparr>,
                      connections := [1], next_conn := 2,
                      statements := [CREATE_DATABASE, CREATE_TABLE],
                      stdout := [EnsuringTable, DatabaseReady, MenuRule, MenuTitle, MenuRule,
                                 MenuItem 1, MenuItem 2, MenuItem 3, MenuItem 4, MenuItem 5,
                                 MenuDashes, PromptChoice, Goodbye]\<rparr>"
  have s: "setup_database (fresh_server\<lparr>stdin := [ascii ''5'']\<rparr>) = Returned (Some 1) ?w1"
    by (simp add: setup_database_def connect_def execute_def run_def close_def print_def
        is_connected_def fresh_server_def)
  have l: "menu_loop id 1 ?w1 = Returned () ?w2"
    by (simp add: menu_loop.simps menu_def input_def print_def fresh_server_def ascii_def)
  from normal_exit_closes_connection [OF s l] s show ?thesis
    by (simp add: is_connected_def close_def print_def fresh_server_def)
qed

text \<open>
  C9 as stated fails when the loop ends by an error. On a fresh server with standard
  input at its end, \<open>setup_database\<close> opens connection 1, the first \<open>input\<close> of
  the loop raises \<open>EOFError\<close>, nothing catches it, and the program ends with
  connection 1 still open: line 204 is not reached.
\<close>

theorem end_of_input_leaves_connection_open:
  "setup_database fresh_server =
     Returned (Some 1)
       (fresh_server\<lparr>db_exists := True, customers := Some \<lparr>rows = [], auto_increment = 1\<rparr>,
                      connections := [1], next_conn := 2,
                      statements := [CREATE_DATABASE, CREATE_TABLE],
                      stdout := [EnsuringTable, DatabaseReady]\<rparr>)
   \<and> main id fresh_server =
     Raised EOFError
       (fresh_server\<lparr>db_exists := True, customers := Some \<lparr>rows = [], auto_increment = 1\<rparr>,
                      connections := [1], next_conn := 2,
                      statements := [CREATE_DATABASE, CREATE_TABLE],
                      stdout := [EnsuringTable, DatabaseReady, MenuRule, MenuTitle, MenuRule,
                                 MenuItem 1, MenuItem 2, MenuItem 3, MenuItem 4, MenuItem 5,
                                 MenuDashes, PromptChoice]\<rparr>)
   \<and> is_connected 1
       (fresh_server\<lparr>db_exists := True, customers := Some \<lparr>rows = [], auto_increment = 1\<rparr>,
                      connections := [1], next_conn := 2,
                      statements := [CREATE_DATABASE, CREATE_TABLE],
                      stdout := [EnsuringTable, DatabaseReady, MenuRule, MenuTitle, MenuRule,
                                 MenuItem 1, MenuItem 2, MenuItem 3, MenuItem 4, MenuItem 5,
                                 MenuDashes, PromptChoice]\<rparr>)"
  by (simp add: main_def setup_database_def connect_def execute_def run_def close_def
      print_def is_connected_def fresh_server_def menu_loop.simps menu_def input_def)

end
